theory Spec2Isabelle
  imports Complex_Main
begin

section \<open>EfficientNet encoders of pytorch-toolbelt: the channel adapter\<close>

text \<open>
  The development embeds \<^verbatim>\<open>pytorch_toolbelt/modules/encoders/timm/efficient_net.py\<close>.
  Python exceptions are values of \<open>error\<close>; a function that may raise returns
  \<open>error + 'a\<close> with \<open>Inl\<close> for the exception.
\<close>

datatype error =
    AssertionError
  | ZeroDivisionError
  | RuntimeError
  | ValueError
  | TypeError
  | IndexError
  | AttributeError
  | InvalidArgument
  | ProviderError

subsection \<open>Tensors and convolution modules\<close>

text \<open>
  A weight tensor of shape \<open>[O, K, kH, kW]\<close> is a nested list indexed
  \<open>w ! o ! k ! y ! x\<close>; the scalars \<open>'s\<close> are opaque, the code only copies them.
  Axis 1 (the second index) is the channel axis.
\<close>

type_synonym 's tensor4 = "'s list list list list"

record 's Conv2d =
  in_channels :: int
  out_channels :: int
  kernel_size :: "int \<times> int"
  stride :: "int \<times> int"
  padding :: "int \<times> int"
  dilation :: "int \<times> int"
  groups :: int
  bias :: "'s list option"
  weight :: "'s tensor4"
  weight_requires_grad :: bool

text \<open>
  Modules are objects with identity. The heap holds the \<open>Conv2d\<close> objects, a reference
  is an index into it, and a reference outside the heap is an object that is not a
  \<open>Conv2d\<close>. Allocation appends.
\<close>

type_synonym ref = nat
type_synonym 's heap = "'s Conv2d list"

definition deref :: "'s heap \<Rightarrow> ref \<Rightarrow> 's Conv2d option" where
  "deref h r = (if r < length h then Some (h ! r) else None)"

definition alloc :: "'s heap \<Rightarrow> 's Conv2d \<Rightarrow> ref \<times> 's heap" where
  "alloc h c = (length h, h @ [c])"

text \<open>
  The spec's invariant of a convolution (section 3): the channel axis of the weight has
  \<open>in_channels / groups\<close> entries.
\<close>

definition conv_wf :: "'s Conv2d \<Rightarrow> bool" where
  "conv_wf c \<longleftrightarrow>
     0 < groups c \<and> in_channels c mod groups c = 0 \<and>
     list_all (\<lambda>row. int (length row) = in_channels c div groups c) (weight c)"

subsection \<open>The constructor of the replacement module\<close>

text \<open>
  \<^verbatim>\<open>Conv2dSame\<close> comes from the external model library. The adapter takes it as a
  parameter: a function from the constructor's arguments to a fresh module or an error.
\<close>

record conv_args =
  a_in_channels :: int
  a_out_channels :: int
  a_kernel_size :: "int \<times> int"
  a_stride :: "int \<times> int"
  a_padding :: "int \<times> int"
  a_dilation :: "int \<times> int"
  a_groups :: int
  a_bias :: bool

text \<open>
  The keyword arguments the adapter reads with \<^verbatim>\<open>kwargs.get(key, default)\<close>; a key
  that is absent is \<open>None\<close>. Other keys are never read.
\<close>

record kwargs =
  kw_kernel_size :: "(int \<times> int) option"
  kw_stride :: "(int \<times> int) option"
  kw_padding :: "(int \<times> int) option"
  kw_dilation :: "(int \<times> int) option"
  kw_groups :: "int option"
  kw_bias :: "bool option"

definition kwargs_get :: "'a option \<Rightarrow> 'a \<Rightarrow> 'a" where
  "kwargs_get v dflt = (case v of Some x \<Rightarrow> x | None \<Rightarrow> dflt)"

text \<open>
  A concrete constructor for closed instances, after the argument checks of
  \<^verbatim>\<open>torch.nn.Conv2d\<close> (which \<^verbatim>\<open>Conv2dSame\<close> extends, passing padding 0):
  groups must be positive and divide both channel counts, no dimension of the weight
  may be negative, and zero channels are accepted. The fresh parameters are filled
  with \<open>fill\<close> in place of the random initialisation.
\<close>

definition timm_Conv2dSame :: "'s \<Rightarrow> conv_args \<Rightarrow> error + 's Conv2d" where
  "timm_Conv2dSame fill a =
     (if a_groups a \<le> 0 then Inl ValueError
      else if a_in_channels a mod a_groups a \<noteq> 0 then Inl ValueError
      else if a_out_channels a mod a_groups a \<noteq> 0 then Inl ValueError
      else if a_out_channels a < 0 \<or> a_in_channels a div a_groups a < 0
              \<or> fst (a_kernel_size a) < 0 \<or> snd (a_kernel_size a) < 0 then Inl RuntimeError
      else Inr \<lparr>in_channels = a_in_channels a,
                out_channels = a_out_channels a,
                kernel_size = a_kernel_size a,
                stride = a_stride a,
                padding = (0, 0),
                dilation = a_dilation a,
                groups = a_groups a,
                bias = (if a_bias a then Some (replicate (nat (a_out_channels a)) fill) else None),
                weight = replicate (nat (a_out_channels a))
                           (replicate (nat (a_in_channels a div a_groups a))
                              (replicate (nat (fst (a_kernel_size a)))
                                 (replicate (nat (snd (a_kernel_size a))) fill))),
                weight_requires_grad = True\<rparr>)"

subsection \<open>Tensor operations of the adapter\<close>

text \<open>
  \<^verbatim>\<open>math.ceil(a / float(b))\<close> for \<open>b \<noteq> 0\<close>, as the exact ceiling of the quotient.
  The float quotient has the same ceiling as the exact one for every channel count
  below \<open>2^53\<close>.
\<close>

definition py_ceil_div :: "int \<Rightarrow> int \<Rightarrow> int" where
  "py_ceil_div a b = - ((- a) div b)"

text \<open>\<^verbatim>\<open>torch.cat([w] * n, dim=1)\<close>: every row of axis 1 repeated \<open>n\<close> times.\<close>

definition cat_dim1 :: "nat \<Rightarrow> 's tensor4 \<Rightarrow> 's tensor4" where
  "cat_dim1 n w = map (\<lambda>row. concat (replicate n row)) w"

text \<open>
  A Python slice \<^verbatim>\<open>xs[0:k]\<close>: a negative \<open>k\<close> counts from the end, and the slice is
  clipped to the list.
\<close>

definition py_slice_to :: "int \<Rightarrow> 'a list \<Rightarrow> 'a list" where
  "py_slice_to k xs = take (nat (if k < 0 then int (length xs) + k else k)) xs"

text \<open>\<^verbatim>\<open>w[:, 0:k, ...]\<close>.\<close>

definition slice_dim1 :: "int \<Rightarrow> 's tensor4 \<Rightarrow> 's tensor4" where
  "slice_dim1 k w = map (py_slice_to k) w"

subsection \<open>\<^verbatim>\<open>make_n_channel_input_conv2d_same\<close>\<close>

text \<open>The arguments of the \<^verbatim>\<open>Conv2dSame(...)\<close> call (source lines 32 to 41).\<close>

definition new_conv_args :: "'s Conv2d \<Rightarrow> int \<Rightarrow> kwargs \<Rightarrow> conv_args" where
  "new_conv_args conv new_in_channels kw =
     \<lparr>a_in_channels = new_in_channels,
      a_out_channels = out_channels conv,
      a_kernel_size = kwargs_get (kw_kernel_size kw) (kernel_size conv),
      a_stride = kwargs_get (kw_stride kw) (stride conv),
      a_padding = kwargs_get (kw_padding kw) (padding conv),
      a_dilation = kwargs_get (kw_dilation kw) (dilation conv),
      a_groups = kwargs_get (kw_groups kw) (groups conv),
      a_bias = kwargs_get (kw_bias kw) (bias conv \<noteq> None)\<rparr>"

text \<open>
  The weight of the new module (source lines 43 to 51). \<open>[w] * n\<close> is the empty list
  for \<open>n \<le> 0\<close>, which \<^verbatim>\<open>torch.cat\<close> rejects; the division raises on a zero divisor.
\<close>

definition new_weight :: "'s Conv2d \<Rightarrow> int \<Rightarrow> error + 's tensor4" where
  "new_weight conv new_in_channels =
     (let w = weight conv in
      if new_in_channels > in_channels conv then
        (if in_channels conv = 0 then Inl ZeroDivisionError
         else
           (let n = py_ceil_div new_in_channels (in_channels conv) in
            if n \<le> 0 then Inl RuntimeError
            else Inr (slice_dim1 new_in_channels (cat_dim1 (nat n) w))))
      else Inr (slice_dim1 new_in_channels w))"

text \<open>
  The function returns the reference of the resulting module, the heap, and the
  warnings it emitted. \<open>mode\<close> is the source's parameter of that name.
\<close>

definition make_n_channel_input_conv2d_same ::
  "(conv_args \<Rightarrow> error + 's Conv2d) \<Rightarrow> 's heap \<Rightarrow> ref \<Rightarrow> int \<Rightarrow> 'm \<Rightarrow> kwargs
     \<Rightarrow> error + (ref \<times> 's heap \<times> string list)" where
  "make_n_channel_input_conv2d_same Conv2dSame h conv new_in_channels mode kw =
     (case deref h conv of
        None \<Rightarrow> Inl AssertionError
      | Some c \<Rightarrow>
          if in_channels c = new_in_channels
          then Inr (conv, h, [''make_n_channel_input call is spurious''])
          else
            (case Conv2dSame (new_conv_args c new_in_channels kw) of
               Inl e \<Rightarrow> Inl e
             | Inr new_conv \<Rightarrow>
                 (case new_weight c new_in_channels of
                    Inl e \<Rightarrow> Inl e
                  | Inr w \<Rightarrow>
                      (let (r, h') = alloc h (new_conv\<lparr>weight := w, weight_requires_grad := True\<rparr>)
                       in Inr (r, h', [])))))"

section \<open>The encoders\<close>

subsection \<open>The backbone built by the external model library\<close>

text \<open>
  Of a backbone the encoders address the stem convolution and, in every block, the
  depthwise convolution \<^verbatim>\<open>conv_dw\<close> (absent in a block that has none). Both are
  references to modules.
\<close>

record block =
  conv_dw :: "ref option"

record backbone =
  conv_stem :: ref
  blocks :: "block list list"

text \<open>
  A call of a factory of the model library, as the encoders write it:
  \<^verbatim>\<open>factory(pretrained=..., features_only=True, act_layer=..., drop_path_rate=...)\<close>.
  The rate is the rational value of the decimal literal of the source.
\<close>

record 'act provider_call =
  pc_factory :: string
  pc_pretrained :: bool
  pc_features_only :: bool
  pc_act_layer :: 'act
  pc_drop_path_rate :: rat

text \<open>
  The model library is a parameter: it builds the backbone, allocating its modules, or
  fails.
\<close>

type_synonym ('act, 's) provider =
  "'act provider_call \<Rightarrow> 's heap \<Rightarrow> error + (backbone \<times> 's heap)"

subsection \<open>The base class and \<^verbatim>\<open>_take\<close>\<close>

text \<open>
  Modelled from the spec: \<^verbatim>\<open>EncoderModule.__init__\<close>, imported from
  \<^verbatim>\<open>..common\<close>, which is not among the source files. After section 3 of the spec
  it keeps the descriptor: the five channel counts, the five strides and the requested
  stages.
\<close>

record encoder_module =
  channels :: "int list"
  strides :: "int list"
  layers' :: "int list"

definition EncoderModule_init :: "int list \<Rightarrow> int list \<Rightarrow> int list \<Rightarrow> encoder_module" where
  "EncoderModule_init chans strs lays = \<lparr>channels = chans, strides = strs, layers' = lays\<rparr>"

text \<open>The encoder classes add the attribute \<^verbatim>\<open>encoder\<close>, the backbone.\<close>

record efficientnet_encoder = encoder_module +
  encoder :: backbone

definition set_encoder :: "encoder_module \<Rightarrow> backbone \<Rightarrow> efficientnet_encoder" where
  "set_encoder self b =
     \<lparr>channels = channels self, strides = strides self, layers' = layers' self, encoder = b\<rparr>"

text \<open>
  Modelled from the spec: \<^verbatim>\<open>_take\<close>, imported from \<^verbatim>\<open>..common\<close>, which is not
  among the source files. After section 4.3 of the spec it returns the elements whose
  1-indexed position appears in the requested stages, in the order of the request; after
  section 7 a stage outside 1..4 is an \<open>InvalidArgument\<close>. A position past the end of
  the elements, on which the spec is silent, is an \<open>IndexError\<close>.
\<close>

fun take' :: "'a list \<Rightarrow> int list \<Rightarrow> error + 'a list" where
  "take' elements [] = Inr []"
| "take' elements (i # indexes) =
     (if i < 1 \<or> 4 < i then Inl InvalidArgument
      else if length elements < nat i then Inl IndexError
      else
        (case take' elements indexes of
           Inl e \<Rightarrow> Inl e
         | Inr rest \<Rightarrow> Inr (elements ! nat (i - 1) # rest)))"

subsection \<open>Construction\<close>

text \<open>
  The arguments of a constructor. \<open>no_stride\<close> is \<open>None\<close> when the caller does not
  pass that argument. \<open>act_layer\<close> is a name or a module.
\<close>

record 'act init_args =
  pretrained :: bool
  layers :: "int list"
  act_layer :: "string + 'act"
  no_stride :: "bool option"

text \<open>
  \<^verbatim>\<open>if isinstance(act_layer, str): act_layer = get_activation_block(act_layer)\<close>;
  the resolver is a parameter.
\<close>

definition resolve_act_layer :: "(string \<Rightarrow> error + 'act) \<Rightarrow> string + 'act \<Rightarrow> error + 'act" where
  "resolve_act_layer get_activation_block a =
     (case a of Inl name \<Rightarrow> get_activation_block name | Inr m \<Rightarrow> Inr m)"

text \<open>\<^verbatim>\<open>encoder.blocks[g][0].conv_dw\<close>.\<close>

definition conv_dw_at :: "backbone \<Rightarrow> nat \<Rightarrow> error + ref" where
  "conv_dw_at b g =
     (if g < length (blocks b) then
        (case blocks b ! g of
           [] \<Rightarrow> Inl IndexError
         | blk # _ \<Rightarrow> (case conv_dw blk of None \<Rightarrow> Inl AttributeError | Some r \<Rightarrow> Inr r))
      else Inl IndexError)"

text \<open>
  Attribute assignment on the object behind a reference. An object outside the heap is
  not a \<open>Conv2d\<close>; the assignment succeeds on it and changes no \<open>Conv2d\<close>.
\<close>

definition set_stride :: "'s heap \<Rightarrow> ref \<Rightarrow> int \<times> int \<Rightarrow> 's heap" where
  "set_stride h r v = (if r < length h then h[r := (h ! r)\<lparr>stride := v\<rparr>] else h)"

definition set_dilation :: "'s heap \<Rightarrow> ref \<Rightarrow> int \<times> int \<Rightarrow> 's heap" where
  "set_dilation h r v = (if r < length h then h[r := (h ! r)\<lparr>dilation := v\<rparr>] else h)"

text \<open>
  \<^verbatim>\<open>encoder.blocks[g][0].conv_dw.stride = v\<close> and the same for \<^verbatim>\<open>dilation\<close>.
\<close>

definition assign_stride :: "'s heap \<Rightarrow> backbone \<Rightarrow> nat \<Rightarrow> int \<times> int \<Rightarrow> error + 's heap" where
  "assign_stride h b g v =
     (case conv_dw_at b g of Inl e \<Rightarrow> Inl e | Inr r \<Rightarrow> Inr (set_stride h r v))"

definition assign_dilation :: "'s heap \<Rightarrow> backbone \<Rightarrow> nat \<Rightarrow> int \<times> int \<Rightarrow> error + 's heap" where
  "assign_dilation h b g v =
     (case conv_dw_at b g of Inl e \<Rightarrow> Inl e | Inr r \<Rightarrow> Inr (set_dilation h r v))"

text \<open>
  The body of \<^verbatim>\<open>if no_stride:\<close> (source lines 69 to 76, the same in the classes B0
  to B7): four attribute assignments, then the two entries of the stride table.
\<close>

definition no_stride_rewrite ::
  "'s heap \<Rightarrow> backbone \<Rightarrow> int list \<Rightarrow> error + ('s heap \<times> int list)" where
  "no_stride_rewrite h b strs =
     (case assign_stride h b 5 (1, 1) of
        Inl e \<Rightarrow> Inl e
      | Inr h1 \<Rightarrow>
          (case assign_dilation h1 b 5 (2, 2) of
             Inl e \<Rightarrow> Inl e
           | Inr h2 \<Rightarrow>
               (case assign_stride h2 b 3 (1, 1) of
                  Inl e \<Rightarrow> Inl e
                | Inr h3 \<Rightarrow>
                    (case assign_dilation h3 b 3 (2, 2) of
                       Inl e \<Rightarrow> Inl e
                     | Inr h4 \<Rightarrow> Inr (h4, (strs[3 := 8])[4 := 8])))))"

text \<open>
  The constructors of B0 to B7 are the same text up to the factory, its drop-path rate
  and the channel table (source lines 57 to 79, 93 to 113, and so on); \<open>call\<close> builds
  the call of the factory from \<open>pretrained\<close> and the resolved activation.
\<close>

definition efficientnet_init ::
  "(bool \<Rightarrow> 'act \<Rightarrow> 'act provider_call) \<Rightarrow> int list \<Rightarrow> ('act, 's) provider
     \<Rightarrow> (string \<Rightarrow> error + 'act) \<Rightarrow> 's heap \<Rightarrow> 'act init_args
     \<Rightarrow> error + (efficientnet_encoder \<times> 's heap)" where
  "efficientnet_init call chans provider get_activation_block h args =
     (case resolve_act_layer get_activation_block (act_layer args) of
        Inl e \<Rightarrow> Inl e
      | Inr act \<Rightarrow>
          (case provider (call (pretrained args) act) h of
             Inl e \<Rightarrow> Inl e
           | Inr (b, h0) \<Rightarrow>
               (let strs = [2, 4, 8, 16, 32] in
                case (if kwargs_get (no_stride args) False
                      then no_stride_rewrite h0 b strs
                      else Inr (h0, strs)) of
                  Inl e \<Rightarrow> Inl e
                | Inr (h1, strs') \<Rightarrow>
                    Inr (set_encoder (EncoderModule_init chans strs' (layers args)) b, h1))))"

definition B0Encoder_call :: "bool \<Rightarrow> 'act \<Rightarrow> 'act provider_call" where
  "B0Encoder_call p act =
     \<lparr>pc_factory = ''tf_efficientnet_b0_ns'', pc_pretrained = p, pc_features_only = True,
      pc_act_layer = act, pc_drop_path_rate = 5 / 100\<rparr>"

definition B1Encoder_call :: "bool \<Rightarrow> 'act \<Rightarrow> 'act provider_call" where
  "B1Encoder_call p act =
     \<lparr>pc_factory = ''tf_efficientnet_b1_ns'', pc_pretrained = p, pc_features_only = True,
      pc_act_layer = act, pc_drop_path_rate = 5 / 100\<rparr>"

definition B2Encoder_call :: "bool \<Rightarrow> 'act \<Rightarrow> 'act provider_call" where
  "B2Encoder_call p act =
     \<lparr>pc_factory = ''tf_efficientnet_b2_ns'', pc_pretrained = p, pc_features_only = True,
      pc_act_layer = act, pc_drop_path_rate = 1 / 10\<rparr>"

definition B3Encoder_call :: "bool \<Rightarrow> 'act \<Rightarrow> 'act provider_call" where
  "B3Encoder_call p act =
     \<lparr>pc_factory = ''tf_efficientnet_b3_ns'', pc_pretrained = p, pc_features_only = True,
      pc_act_layer = act, pc_drop_path_rate = 1 / 10\<rparr>"

definition B4Encoder_call :: "bool \<Rightarrow> 'act \<Rightarrow> 'act provider_call" where
  "B4Encoder_call p act =
     \<lparr>pc_factory = ''tf_efficientnet_b4_ns'', pc_pretrained = p, pc_features_only = True,
      pc_act_layer = act, pc_drop_path_rate = 2 / 10\<rparr>"

definition B5Encoder_call :: "bool \<Rightarrow> 'act \<Rightarrow> 'act provider_call" where
  "B5Encoder_call p act =
     \<lparr>pc_factory = ''tf_efficientnet_b5_ns'', pc_pretrained = p, pc_features_only = True,
      pc_act_layer = act, pc_drop_path_rate = 2 / 10\<rparr>"

definition B6Encoder_call :: "bool \<Rightarrow> 'act \<Rightarrow> 'act provider_call" where
  "B6Encoder_call p act =
     \<lparr>pc_factory = ''tf_efficientnet_b6_ns'', pc_pretrained = p, pc_features_only = True,
      pc_act_layer = act, pc_drop_path_rate = 2 / 10\<rparr>"

definition B7Encoder_call :: "bool \<Rightarrow> 'act \<Rightarrow> 'act provider_call" where
  "B7Encoder_call p act =
     \<lparr>pc_factory = ''tf_efficientnet_b7_ns'', pc_pretrained = p, pc_features_only = True,
      pc_act_layer = act, pc_drop_path_rate = 2 / 10\<rparr>"

definition MixNetXLEncoder_call :: "bool \<Rightarrow> 'act \<Rightarrow> 'act provider_call" where
  "MixNetXLEncoder_call p act =
     \<lparr>pc_factory = ''mixnet_xl'', pc_pretrained = p, pc_features_only = True,
      pc_act_layer = act, pc_drop_path_rate = 2 / 10\<rparr>"

definition B0Encoder_init ::
  "('act, 's) provider \<Rightarrow> (string \<Rightarrow> error + 'act) \<Rightarrow> 's heap \<Rightarrow> 'act init_args
     \<Rightarrow> error + (efficientnet_encoder \<times> 's heap)" where
  "B0Encoder_init = efficientnet_init B0Encoder_call [16, 24, 40, 112, 320]"

definition B1Encoder_init ::
  "('act, 's) provider \<Rightarrow> (string \<Rightarrow> error + 'act) \<Rightarrow> 's heap \<Rightarrow> 'act init_args
     \<Rightarrow> error + (efficientnet_encoder \<times> 's heap)" where
  "B1Encoder_init = efficientnet_init B1Encoder_call [16, 24, 40, 112, 320]"

definition B2Encoder_init ::
  "('act, 's) provider \<Rightarrow> (string \<Rightarrow> error + 'act) \<Rightarrow> 's heap \<Rightarrow> 'act init_args
     \<Rightarrow> error + (efficientnet_encoder \<times> 's heap)" where
  "B2Encoder_init = efficientnet_init B2Encoder_call [16, 24, 48, 120, 352]"

definition B3Encoder_init ::
  "('act, 's) provider \<Rightarrow> (string \<Rightarrow> error + 'act) \<Rightarrow> 's heap \<Rightarrow> 'act init_args
     \<Rightarrow> error + (efficientnet_encoder \<times> 's heap)" where
  "B3Encoder_init = efficientnet_init B3Encoder_call [24, 32, 48, 136, 384]"

definition B4Encoder_init ::
  "('act, 's) provider \<Rightarrow> (string \<Rightarrow> error + 'act) \<Rightarrow> 's heap \<Rightarrow> 'act init_args
     \<Rightarrow> error + (efficientnet_encoder \<times> 's heap)" where
  "B4Encoder_init = efficientnet_init B4Encoder_call [24, 32, 56, 160, 448]"

definition B5Encoder_init ::
  "('act, 's) provider \<Rightarrow> (string \<Rightarrow> error + 'act) \<Rightarrow> 's heap \<Rightarrow> 'act init_args
     \<Rightarrow> error + (efficientnet_encoder \<times> 's heap)" where
  "B5Encoder_init = efficientnet_init B5Encoder_call [24, 40, 64, 176, 512]"

definition B6Encoder_init ::
  "('act, 's) provider \<Rightarrow> (string \<Rightarrow> error + 'act) \<Rightarrow> 's heap \<Rightarrow> 'act init_args
     \<Rightarrow> error + (efficientnet_encoder \<times> 's heap)" where
  "B6Encoder_init = efficientnet_init B6Encoder_call [32, 40, 72, 200, 576]"

definition B7Encoder_init ::
  "('act, 's) provider \<Rightarrow> (string \<Rightarrow> error + 'act) \<Rightarrow> 's heap \<Rightarrow> 'act init_args
     \<Rightarrow> error + (efficientnet_encoder \<times> 's heap)" where
  "B7Encoder_init = efficientnet_init B7Encoder_call [32, 48, 80, 224, 640]"

text \<open>
  \<^verbatim>\<open>MixNetXLEncoder.__init__(self, pretrained, layers, act_layer)\<close> (source lines
  332 to 339) has no parameter \<^verbatim>\<open>no_stride\<close>: a call that passes one raises
  \<open>TypeError\<close> before the body runs.
\<close>

definition MixNetXLEncoder_init ::
  "('act, 's) provider \<Rightarrow> (string \<Rightarrow> error + 'act) \<Rightarrow> 's heap \<Rightarrow> 'act init_args
     \<Rightarrow> error + (efficientnet_encoder \<times> 's heap)" where
  "MixNetXLEncoder_init provider get_activation_block h args =
     (case no_stride args of
        Some flag \<Rightarrow> Inl TypeError
      | None \<Rightarrow>
          (case resolve_act_layer get_activation_block (act_layer args) of
             Inl e \<Rightarrow> Inl e
           | Inr act \<Rightarrow>
               (case provider (MixNetXLEncoder_call (pretrained args) act) h of
                  Inl e \<Rightarrow> Inl e
                | Inr (b, h0) \<Rightarrow>
                    Inr (set_encoder
                           (EncoderModule_init [40, 48, 64, 192, 320] [2, 4, 8, 16, 32] (layers args))
                           b, h0))))"

text \<open>
  The eight size variants: each constructor with the call of its factory and its channel
  table.
\<close>

definition efficientnet_variants ::
  "((('act, 's) provider \<Rightarrow> (string \<Rightarrow> error + 'act) \<Rightarrow> 's heap \<Rightarrow> 'act init_args
       \<Rightarrow> error + (efficientnet_encoder \<times> 's heap))
    \<times> (bool \<Rightarrow> 'act \<Rightarrow> 'act provider_call) \<times> int list) list" where
  "efficientnet_variants =
     [(B0Encoder_init, B0Encoder_call, [16, 24, 40, 112, 320]),
      (B1Encoder_init, B1Encoder_call, [16, 24, 40, 112, 320]),
      (B2Encoder_init, B2Encoder_call, [16, 24, 48, 120, 352]),
      (B3Encoder_init, B3Encoder_call, [24, 32, 48, 136, 384]),
      (B4Encoder_init, B4Encoder_call, [24, 32, 56, 160, 448]),
      (B5Encoder_init, B5Encoder_call, [24, 40, 64, 176, 512]),
      (B6Encoder_init, B6Encoder_call, [32, 40, 72, 200, 576]),
      (B7Encoder_init, B7Encoder_call, [32, 48, 80, 224, 640])]"

subsection \<open>\<^verbatim>\<open>forward\<close> and \<^verbatim>\<open>change_input_channels\<close>\<close>

text \<open>
  The two methods are the same text in all nine classes. The forward computation of the
  backbone is a parameter \<open>run\<close>.
\<close>

definition forward ::
  "('s heap \<Rightarrow> backbone \<Rightarrow> 'x \<Rightarrow> 't list) \<Rightarrow> 's heap \<Rightarrow> efficientnet_encoder \<Rightarrow> 'x
     \<Rightarrow> error + 't list" where
  "forward run h self x = (let features = run h (encoder self) x in take' features (layers' self))"

definition change_input_channels ::
  "(conv_args \<Rightarrow> error + 's Conv2d) \<Rightarrow> 's heap \<Rightarrow> efficientnet_encoder \<Rightarrow> int \<Rightarrow> 'm \<Rightarrow> kwargs
     \<Rightarrow> error + (efficientnet_encoder \<times> 's heap \<times> string list)" where
  "change_input_channels Conv2dSame h self input_channels mode kw =
     (case make_n_channel_input_conv2d_same Conv2dSame h (conv_stem (encoder self))
             input_channels mode kw of
        Inl e \<Rightarrow> Inl e
      | Inr (r, h', warnings) \<Rightarrow>
          Inr (self\<lparr>encoder := (encoder self)\<lparr>conv_stem := r\<rparr>\<rparr>, h', warnings))"

section \<open>Observations and concrete instances\<close>

text \<open>The module a call of the adapter returns, and the lengths along its channel axis.\<close>

definition result_module :: "error + (ref \<times> 's heap \<times> string list) \<Rightarrow> 's Conv2d option" where
  "result_module res = (case res of Inl e \<Rightarrow> None | Inr (r, h, ws) \<Rightarrow> deref h r)"

definition channel_axis :: "'s Conv2d \<Rightarrow> nat list" where
  "channel_axis c = map length (weight c)"

text \<open>
  A call with no keyword arguments; a three-channel stem convolution with two filters of
  size 1 by 1; a grouped convolution with eight input channels in two groups, whose weight
  has four channels; a depthwise convolution of stride 2.
\<close>

definition no_kwargs :: kwargs where
  "no_kwargs = \<lparr>kw_kernel_size = None, kw_stride = None, kw_padding = None,
                 kw_dilation = None, kw_groups = None, kw_bias = None\<rparr>"

definition rgb_conv :: "int Conv2d" where
  "rgb_conv = \<lparr>in_channels = 3, out_channels = 2, kernel_size = (1, 1), stride = (2, 2),
     padding = (0, 0), dilation = (1, 1), groups = 1, bias = None,
     weight = [[[[10]], [[11]], [[12]]], [[[20]], [[21]], [[22]]]],
     weight_requires_grad = True\<rparr>"

definition grouped_conv :: "int Conv2d" where
  "grouped_conv = \<lparr>in_channels = 8, out_channels = 2, kernel_size = (1, 1), stride = (1, 1),
     padding = (0, 0), dilation = (1, 1), groups = 2, bias = None,
     weight = [[[[10]], [[11]], [[12]], [[13]]], [[[20]], [[21]], [[22]], [[23]]]],
     weight_requires_grad = True\<rparr>"

definition dw_conv :: "int Conv2d" where
  "dw_conv = \<lparr>in_channels = 2, out_channels = 2, kernel_size = (1, 1), stride = (2, 2),
     padding = (0, 0), dilation = (1, 1), groups = 2, bias = None,
     weight = [[[[1]]], [[[2]]]],
     weight_requires_grad = True\<rparr>"

text \<open>
  A model library for the instances: a backbone of seven block groups of one block each,
  its stem allocated first and the depthwise convolutions after it.
\<close>

definition example_backbone :: "nat \<Rightarrow> backbone" where
  "example_backbone n =
     \<lparr>conv_stem = n,
      blocks = [[\<lparr>conv_dw = Some (n + 1)\<rparr>], [\<lparr>conv_dw = Some (n + 2)\<rparr>],
                [\<lparr>conv_dw = Some (n + 3)\<rparr>], [\<lparr>conv_dw = Some (n + 4)\<rparr>],
                [\<lparr>conv_dw = Some (n + 5)\<rparr>], [\<lparr>conv_dw = Some (n + 6)\<rparr>],
                [\<lparr>conv_dw = Some (n + 7)\<rparr>]]\<rparr>"

definition example_modules :: "int heap" where
  "example_modules = [rgb_conv, dw_conv, dw_conv, dw_conv, dw_conv, dw_conv, dw_conv, dw_conv]"

definition example_provider :: "(string, int) provider" where
  "example_provider call h = Inr (example_backbone (length h), h @ example_modules)"

definition example_args :: "bool option \<Rightarrow> string init_args" where
  "example_args flag =
     \<lparr>pretrained = False, layers = [1, 2, 3, 4], act_layer = Inl ''swish'', no_stride = flag\<rparr>"

text \<open>
  An encoder that requests the stages 4 and 2, and a backbone whose five outputs are named
  after their strides.
\<close>

definition example_encoder :: efficientnet_encoder where
  "example_encoder =
     \<lparr>channels = [16, 24, 40, 112, 320], strides = [2, 4, 8, 16, 32], layers' = [4, 2],
      encoder = \<lparr>conv_stem = 0, blocks = []\<rparr>\<rparr>"

definition example_run :: "int heap \<Rightarrow> backbone \<Rightarrow> string \<Rightarrow> string list" where
  "example_run h b x = [x @ ''/2'', x @ ''/4'', x @ ''/8'', x @ ''/16'', x @ ''/32'']"

section \<open>Auxiliary facts\<close>

subsection \<open>Ceiling division and tiling\<close>

lemma py_ceil_div_ceiling:
  "py_ceil_div a b = \<lceil>rat_of_int a / rat_of_int b\<rceil>"
proof -
  have "- (rat_of_int a / rat_of_int b) = rat_of_int (- a) / rat_of_int b" by simp
  then have "\<lfloor>- (rat_of_int a / rat_of_int b)\<rfloor> = (- a) div b"
    by (simp only: floor_divide_of_int_eq)
  then show ?thesis by (simp add: py_ceil_div_def ceiling_def)
qed

lemma py_ceil_div_covers:
  assumes "0 < b"
  shows "a \<le> py_ceil_div a b * b"
proof -
  have "(- a) div b * b = - a - (- a) mod b"
    by (simp add: minus_mod_eq_div_mult [symmetric])
  moreover have "0 \<le> (- a) mod b" using assms by simp
  ultimately show ?thesis by (simp add: py_ceil_div_def)
qed

lemma py_ceil_div_pos:
  assumes "0 < b" and "0 < a"
  shows "0 < py_ceil_div a b"
proof (rule ccontr)
  assume "\<not> 0 < py_ceil_div a b"
  then have "py_ceil_div a b * b \<le> 0" using assms(1) by (simp add: mult_le_0_iff)
  with py_ceil_div_covers [OF assms(1), of a] assms(2) show False by simp
qed

lemma length_concat_replicate: "length (concat (replicate n xs)) = n * length xs"
  by (induction n) simp_all

lemma take_concat_replicate:
  "0 < n \<Longrightarrow> take (length xs) (concat (replicate n xs)) = xs"
  by (cases n) simp_all

lemma new_weight_grow:
  assumes "0 < in_channels c" and "in_channels c < n"
  shows "new_weight c n
           = Inr (map (\<lambda>row. take (nat n) (concat (replicate (nat \<lceil>rat_of_int n / rat_of_int (in_channels c)\<rceil>) row)))
                    (weight c))"
proof -
  have "0 < py_ceil_div n (in_channels c)"
    using assms by (intro py_ceil_div_pos) simp_all
  then have "new_weight c n
      = Inr (slice_dim1 n (cat_dim1 (nat (py_ceil_div n (in_channels c))) (weight c)))"
    using assms by (simp add: new_weight_def Let_def)
  moreover have "\<not> n < 0" using assms by simp
  ultimately show ?thesis
    by (simp add: slice_dim1_def cat_dim1_def py_slice_to_def py_ceil_div_ceiling comp_def)
qed

lemma tiled_row_length:
  assumes "row \<noteq> []" and "int (length row) < n"
  shows "length (take (nat n) (concat (replicate (nat (py_ceil_div n (int (length row)))) row)))
           = nat n"
proof -
  let ?k = "int (length row)"
  have k: "0 < ?k" using assms(1) by simp
  have pos: "0 < py_ceil_div n ?k" using k assms(2) by (intro py_ceil_div_pos) simp_all
  have "n \<le> py_ceil_div n ?k * ?k" using k by (rule py_ceil_div_covers)
  then have "nat n \<le> nat (py_ceil_div n ?k * ?k)" by simp
  also have "\<dots> = nat (py_ceil_div n ?k) * length row"
    using pos by (simp add: nat_mult_distrib)
  finally show ?thesis by (simp add: length_concat_replicate)
qed

lemma tiled_row_prefix:
  assumes "row \<noteq> []" and "int (length row) < n"
  shows "take (length row) (take (nat n) (concat (replicate (nat (py_ceil_div n (int (length row)))) row)))
           = row"
proof -
  have pos: "0 < nat (py_ceil_div n (int (length row)))"
    using py_ceil_div_pos [of "int (length row)" n] assms by simp
  have "length row \<le> nat n" using assms by simp
  then show ?thesis
    using take_concat_replicate [OF pos, of row] by (simp add: min_absorb1)
qed

subsection \<open>Construction and the stride rewrite\<close>

lemma variants_unfold:
  assumes "(init, call, chans) \<in> set efficientnet_variants"
  shows "init = efficientnet_init call chans"
  using assms
  by (auto simp: efficientnet_variants_def B0Encoder_init_def B1Encoder_init_def
      B2Encoder_init_def B3Encoder_init_def B4Encoder_init_def B5Encoder_init_def
      B6Encoder_init_def B7Encoder_init_def)

lemma no_stride_rewrite_heap:
  assumes "conv_dw_at b 5 = Inr ra" and "conv_dw_at b 3 = Inr rb"
  shows "no_stride_rewrite h b strs
           = Inr (set_dilation (set_stride (set_dilation (set_stride h ra (1, 1)) ra (2, 2)) rb (1, 1)) rb (2, 2),
                  (strs[3 := 8])[4 := 8])"
  using assms by (simp add: no_stride_rewrite_def assign_stride_def assign_dilation_def)

lemma rewritten_heap_length:
  "length (set_dilation (set_stride (set_dilation (set_stride h ra v) ra d) rb v) rb d) = length h"
  by (simp add: set_stride_def set_dilation_def)

lemma rewritten_heap_nth:
  assumes "r < length h"
  shows "set_dilation (set_stride (set_dilation (set_stride h ra v) ra d) rb v) rb d ! r
           = (if r = ra \<or> r = rb then (h ! r)\<lparr>stride := v, dilation := d\<rparr> else h ! r)"
  using assms by (auto simp: set_stride_def set_dilation_def nth_list_update)

lemma efficientnet_init_flag:
  assumes "resolve_act_layer gab (act_layer args) = Inr act"
    and "provider (call (pretrained args) act) h = Inr (b, hb)"
    and "no_stride args = Some True"
  shows "efficientnet_init call chans provider gab h args
           = (case no_stride_rewrite hb b [2, 4, 8, 16, 32] of
                Inl e \<Rightarrow> Inl e
              | Inr (h1, strs) \<Rightarrow>
                  Inr (\<lparr>channels = chans, strides = strs, layers' = layers args, encoder = b\<rparr>, h1))"
  using assms
  by (simp add: efficientnet_init_def kwargs_get_def set_encoder_def EncoderModule_init_def
      split: sum.splits)

lemma efficientnet_init_plain:
  assumes "resolve_act_layer gab (act_layer args) = Inr act"
    and "provider (call (pretrained args) act) h = Inr (b, hb)"
    and "no_stride args \<noteq> Some True"
  shows "efficientnet_init call chans provider gab h args
           = Inr (\<lparr>channels = chans, strides = [2, 4, 8, 16, 32], layers' = layers args, encoder = b\<rparr>, hb)"
proof -
  have "\<not> kwargs_get (no_stride args) False"
    using assms(3) by (cases "no_stride args") (simp_all add: kwargs_get_def)
  then show ?thesis
    using assms(1,2)
    by (simp add: efficientnet_init_def set_encoder_def EncoderModule_init_def)
qed

lemma example_structure:
  "conv_dw_at (example_backbone 0) 5 = Inr 6" "conv_dw_at (example_backbone 0) 3 = Inr 4"
  by (simp_all add: conv_dw_at_def example_backbone_def eval_nat_numeral)

subsection \<open>Selection of stages\<close>

lemma take'_in_range:
  assumes "list_all (\<lambda>i. 1 \<le> i \<and> i \<le> 4 \<and> nat i \<le> length elements) indexes"
  shows "take' elements indexes = Inr (map (\<lambda>i. elements ! nat (i - 1)) indexes)"
  using assms by (induction indexes) auto

section \<open>The claims\<close>

text \<open>
  C1, as amended. For a well-formed convolution with \<open>groups = 1\<close> and \<open>C > 0\<close>
  input channels, and a new count \<open>n > C\<close> that the constructor accepts, the adapter
  returns a new module whose weight is the original one tiled \<open>ceil(n / C)\<close> times along
  the channel axis and cut to the first \<open>n\<close> channels: every row of the channel axis has
  length exactly \<open>n\<close>, and its first \<open>C\<close> channels are the original ones.
\<close>

theorem tile_then_truncate:
  assumes "deref h conv = Some c"
    and "conv_wf c" and "groups c = 1"
    and "0 < in_channels c" and "in_channels c < n"
    and "Conv2dSame (new_conv_args c n kw) = Inr new_conv"
  shows
    "(let w' = map (\<lambda>row. take (nat n)
                    (concat (replicate (nat \<lceil>rat_of_int n / rat_of_int (in_channels c)\<rceil>) row)))
                 (weight c)
      in make_n_channel_input_conv2d_same Conv2dSame h conv n mode kw
           = Inr (length h, h @ [new_conv\<lparr>weight := w', weight_requires_grad := True\<rparr>], [])
         \<and> length w' = length (weight c)
         \<and> list_all (\<lambda>row. int (length row) = n) w'
         \<and> map (take (nat (in_channels c))) w' = weight c)"
proof -
  let ?k = "in_channels c"
  let ?f = "\<lambda>row. take (nat n) (concat (replicate (nat \<lceil>rat_of_int n / rat_of_int ?k\<rceil>) row))"
  have rows: "list_all (\<lambda>row. int (length row) = ?k) (weight c)"
    using assms(2,3) by (simp add: conv_wf_def)
  have ne: "?k \<noteq> n" using assms(5) by simp
  have run: "make_n_channel_input_conv2d_same Conv2dSame h conv n mode kw
           = Inr (length h, h @ [new_conv\<lparr>weight := map ?f (weight c), weight_requires_grad := True\<rparr>], [])"
    using assms(1,6) ne new_weight_grow [OF assms(4,5)]
    by (simp add: make_n_channel_input_conv2d_same_def alloc_def)
  have len: "list_all (\<lambda>row. int (length row) = n) (map ?f (weight c))"
  proof -
    have "int (length (?f row)) = n" if "row \<in> set (weight c)" for row
    proof -
      have l: "int (length row) = ?k" using rows that by (simp add: list_all_iff)
      then have "row \<noteq> []" and "int (length row) < n" using assms(4,5) by auto
      from tiled_row_length [OF this]
      have "length (?f row) = nat n"
        by (simp only: l py_ceil_div_ceiling)
      then show ?thesis using assms(4,5) by simp
    qed
    then show ?thesis by (simp add: list_all_iff)
  qed
  have pre: "map (take (nat ?k)) (map ?f (weight c)) = weight c"
  proof -
    have "take (nat ?k) (?f row) = row" if "row \<in> set (weight c)" for row
    proof -
      have l: "int (length row) = ?k" using rows that by (simp add: list_all_iff)
      then have "row \<noteq> []" and "int (length row) < n" using assms(4,5) by auto
      from tiled_row_prefix [OF this]
      have "take (length row) (?f row) = row"
        by (simp only: l py_ceil_div_ceiling)
      moreover have "nat ?k = length row" using l by simp
      ultimately show ?thesis by (simp only:)
    qed
    then show ?thesis by (simp add: map_idI)
  qed
  show ?thesis using run len pre by (simp add: Let_def)
qed

text \<open>
  An instance of C1: three channels tiled to seven.
\<close>

theorem tile_then_truncate_witness:
  "deref [rgb_conv] 0 = Some rgb_conv \<and> conv_wf rgb_conv \<and> groups rgb_conv = 1
   \<and> in_channels rgb_conv = 3
   \<and> make_n_channel_input_conv2d_same (timm_Conv2dSame 0) [rgb_conv] 0 7 ''auto'' no_kwargs
       = Inr (1, [rgb_conv,
                  rgb_conv\<lparr>in_channels := 7,
                    weight := [[[[10]], [[11]], [[12]], [[10]], [[11]], [[12]], [[10]]],
                               [[[20]], [[21]], [[22]], [[20]], [[21]], [[22]], [[20]]]]\<rparr>], [])"
proof -
  have 1: "deref [rgb_conv] 0 = Some rgb_conv" by (simp add: deref_def)
  have 2: "conv_wf rgb_conv" by (simp add: conv_wf_def rgb_conv_def)
  have 3: "groups rgb_conv = 1" by (simp add: rgb_conv_def)
  have 4: "0 < in_channels rgb_conv" by (simp add: rgb_conv_def)
  have 5: "in_channels rgb_conv < 7" by (simp add: rgb_conv_def)
  have 6: "timm_Conv2dSame 0 (new_conv_args rgb_conv 7 no_kwargs) = Inr (rgb_conv\<lparr>in_channels := 7, weight := [[[[0]], [[0]], [[0]], [[0]], [[0]], [[0]], [[0]]],
                               [[[0]], [[0]], [[0]], [[0]], [[0]], [[0]], [[0]]]]\<rparr>)"
    by (simp add: timm_Conv2dSame_def new_conv_args_def no_kwargs_def kwargs_get_def
        rgb_conv_def eval_nat_numeral)
  have 7: "\<lceil>(7::rat) / 3\<rceil> = 3" by (rule ceiling_unique) simp_all
  show ?thesis
    using tile_then_truncate [where Conv2dSame = "timm_Conv2dSame 0" and mode = "''auto''", OF 1 2 3 4 5 6] 1 2 3
    by (simp add: Let_def rgb_conv_def 7 eval_nat_numeral)
qed

text \<open>
  C1 as stated, for every convolution, fails on a grouped one: with eight input channels
  in two groups the weight has four channels, two copies give eight, and the cut to ten
  leaves eight, not ten.
\<close>

theorem tile_then_truncate_counterexample:
  "in_channels grouped_conv = 8 \<and> conv_wf grouped_conv
   \<and> map_option channel_axis
       (result_module
          (make_n_channel_input_conv2d_same (timm_Conv2dSame 0) [grouped_conv] 0 10 ''auto'' no_kwargs))
     = Some [8, 8]"
  by (simp add: make_n_channel_input_conv2d_same_def deref_def alloc_def new_weight_def
      timm_Conv2dSame_def new_conv_args_def no_kwargs_def kwargs_get_def grouped_conv_def
      result_module_def channel_axis_def conv_wf_def py_ceil_div_def slice_dim1_def
      cat_dim1_def py_slice_to_def Let_def eval_nat_numeral)

text \<open>
  C2, as amended. For a well-formed convolution with \<open>groups = 1\<close> and \<open>C\<close> input
  channels, and a new count \<open>1 \<le> n < C\<close> that the constructor accepts, the adapter returns
  a new module whose weight is the first \<open>n\<close> channels of the original one: every row of
  the channel axis has length exactly \<open>n\<close>, and for \<open>n = 1\<close> only channel 0 is kept.
\<close>

theorem prefix_truncation:
  assumes "deref h conv = Some c"
    and "conv_wf c" and "groups c = 1"
    and "1 \<le> n" and "n < in_channels c"
    and "Conv2dSame (new_conv_args c n kw) = Inr new_conv"
  shows
    "make_n_channel_input_conv2d_same Conv2dSame h conv n mode kw
       = Inr (length h,
              h @ [new_conv\<lparr>weight := map (take (nat n)) (weight c), weight_requires_grad := True\<rparr>],
              [])
     \<and> list_all (\<lambda>row. int (length row) = n) (map (take (nat n)) (weight c))
     \<and> (n = 1 \<longrightarrow> map (take (nat n)) (weight c) = map (\<lambda>row. [row ! 0]) (weight c))"
proof -
  have rows: "list_all (\<lambda>row. int (length row) = in_channels c) (weight c)"
    using assms(2,3) by (simp add: conv_wf_def)
  have "new_weight c n = Inr (map (take (nat n)) (weight c))"
    using assms(4,5) by (simp add: new_weight_def slice_dim1_def py_slice_to_def)
  then have run: "make_n_channel_input_conv2d_same Conv2dSame h conv n mode kw
       = Inr (length h,
              h @ [new_conv\<lparr>weight := map (take (nat n)) (weight c), weight_requires_grad := True\<rparr>],
              [])"
    using assms(1,5,6) by (simp add: make_n_channel_input_conv2d_same_def alloc_def)
  have len: "list_all (\<lambda>row. int (length row) = n) (map (take (nat n)) (weight c))"
    using rows assms(4,5) by (auto simp: list_all_iff)
  have one: "map (take (nat n)) (weight c) = map (\<lambda>row. [row ! 0]) (weight c)" if "n = 1"
  proof (rule map_cong [OF refl])
    fix row assume "row \<in> set (weight c)"
    then have "row \<noteq> []" using rows assms(4,5) by (auto simp: list_all_iff)
    then show "take (nat n) row = [row ! 0]" using that by (cases row) simp_all
  qed
  show ?thesis using run len one by simp
qed

text \<open>
  An instance of C2: three channels cut to one.
\<close>

theorem prefix_truncation_witness:
  "deref [rgb_conv] 0 = Some rgb_conv \<and> conv_wf rgb_conv \<and> groups rgb_conv = 1
   \<and> in_channels rgb_conv = 3
   \<and> make_n_channel_input_conv2d_same (timm_Conv2dSame 0) [rgb_conv] 0 1 ''auto'' no_kwargs
       = Inr (1, [rgb_conv, rgb_conv\<lparr>in_channels := 1, weight := [[[[10]]], [[[20]]]]\<rparr>], [])"
proof -
  have 1: "deref [rgb_conv] 0 = Some rgb_conv" by (simp add: deref_def)
  have 2: "conv_wf rgb_conv" by (simp add: conv_wf_def rgb_conv_def)
  have 3: "groups rgb_conv = 1" by (simp add: rgb_conv_def)
  have 4: "(1::int) \<le> 1" by simp
  have 5: "1 < in_channels rgb_conv" by (simp add: rgb_conv_def)
  have 6: "timm_Conv2dSame 0 (new_conv_args rgb_conv 1 no_kwargs)
      = Inr (rgb_conv\<lparr>in_channels := 1, weight := [[[[0]]], [[[0]]]]\<rparr>)"
    by (simp add: timm_Conv2dSame_def new_conv_args_def no_kwargs_def kwargs_get_def
        rgb_conv_def eval_nat_numeral)
  show ?thesis
    using prefix_truncation [where Conv2dSame = "timm_Conv2dSame 0" and mode = "''auto''", OF 1 2 3 4 5 6] 1 2 3
    by (simp add: rgb_conv_def)
qed

text \<open>
  C2 as stated, for every convolution, fails on a grouped one: with eight input channels
  in two groups the weight has four channels, and the slice to six leaves four, not six.
\<close>

theorem prefix_truncation_counterexample:
  "in_channels grouped_conv = 8 \<and> conv_wf grouped_conv
   \<and> map_option channel_axis
       (result_module
          (make_n_channel_input_conv2d_same (timm_Conv2dSame 0) [grouped_conv] 0 6 ''auto'' no_kwargs))
     = Some [4, 4]"
  by (simp add: make_n_channel_input_conv2d_same_def deref_def alloc_def new_weight_def
      timm_Conv2dSame_def new_conv_args_def no_kwargs_def kwargs_get_def grouped_conv_def
      result_module_def channel_axis_def conv_wf_def slice_dim1_def
      py_slice_to_def Let_def eval_nat_numeral)

text \<open>
  C3. When the requested channel count equals the module's current count, the adapter
  emits the warning and returns the reference it was given, on an unchanged heap; the
  call does not fail.
\<close>

theorem spurious_call_returns_same_module:
  assumes "deref h conv = Some c" and "in_channels c = n"
  shows "make_n_channel_input_conv2d_same Conv2dSame h conv n mode kw
           = Inr (conv, h, [''make_n_channel_input call is spurious''])"
  using assms by (simp add: make_n_channel_input_conv2d_same_def)

text \<open>
  An instance of C3: the three-channel stem asked for three channels.
\<close>

theorem spurious_call_returns_same_module_witness:
  "deref [rgb_conv] 0 = Some rgb_conv \<and> in_channels rgb_conv = 3
   \<and> make_n_channel_input_conv2d_same (timm_Conv2dSame 0) [rgb_conv] 0 3 ''auto'' no_kwargs
       = Inr (0, [rgb_conv], [''make_n_channel_input call is spurious''])"
proof -
  have 1: "deref [rgb_conv] 0 = Some rgb_conv" by (simp add: deref_def)
  have 2: "in_channels rgb_conv = 3" by (simp add: rgb_conv_def)
  show ?thesis
    using spurious_call_returns_same_module [OF 1 2, of "timm_Conv2dSame 0" "''auto''" no_kwargs] 1 2
    by simp
qed

text \<open>
  C4, as amended. The adapter has no check of its own on the new channel count. For a
  count \<open>n < 1\<close> below the current one, it fails exactly when the constructor of the
  replacement module rejects its arguments, with the constructor's error, and otherwise
  returns a new module whose weight is the slice \<^verbatim>\<open>w[:, 0:n]\<close>.
\<close>

theorem no_check_below_one:
  assumes "deref h conv = Some c" and "n < 1" and "n < in_channels c"
  shows "make_n_channel_input_conv2d_same Conv2dSame h conv n mode kw
           = (case Conv2dSame (new_conv_args c n kw) of
                Inl e \<Rightarrow> Inl e
              | Inr new_conv \<Rightarrow>
                  Inr (length h,
                       h @ [new_conv\<lparr>weight := slice_dim1 n (weight c), weight_requires_grad := True\<rparr>],
                       []))"
  using assms
  by (simp add: make_n_channel_input_conv2d_same_def new_weight_def alloc_def split: sum.splits)

text \<open>
  Instances of C4: the count 0, which the constructor accepts, and the count -1, which it
  rejects with its own error.
\<close>

theorem no_check_below_one_witness:
  "deref [rgb_conv] 0 = Some rgb_conv \<and> (0::int) < 1 \<and> 0 < in_channels rgb_conv
   \<and> make_n_channel_input_conv2d_same (timm_Conv2dSame 0) [rgb_conv] 0 0 ''auto'' no_kwargs
       = Inr (1, [rgb_conv, rgb_conv\<lparr>in_channels := 0, weight := [[], []]\<rparr>], [])
   \<and> make_n_channel_input_conv2d_same (timm_Conv2dSame 0) [rgb_conv] 0 (- 1) ''auto'' no_kwargs
       = Inl RuntimeError"
proof -
  have 1: "deref [rgb_conv] 0 = Some rgb_conv" by (simp add: deref_def)
  have 2: "(0::int) < 1" "(- 1::int) < 1" by simp_all
  have 3: "0 < in_channels rgb_conv" "- 1 < in_channels rgb_conv" by (simp_all add: rgb_conv_def)
  show ?thesis
    using no_check_below_one [OF 1 2(1) 3(1), of "timm_Conv2dSame 0" "''auto''" no_kwargs]
      no_check_below_one [OF 1 2(2) 3(2), of "timm_Conv2dSame 0" "''auto''" no_kwargs] 1 3(1)
    by (simp add: timm_Conv2dSame_def new_conv_args_def no_kwargs_def kwargs_get_def
        rgb_conv_def slice_dim1_def py_slice_to_def eval_nat_numeral)
qed

text \<open>
  C4 as stated fails at the count 0: the adapter returns a module with an empty channel
  axis.
\<close>

theorem invalid_argument_counterexample:
  "make_n_channel_input_conv2d_same (timm_Conv2dSame 0) [rgb_conv] 0 0 ''auto'' no_kwargs
     = Inr (1, [rgb_conv, rgb_conv\<lparr>in_channels := 0, weight := [[], []]\<rparr>], [])"
  by (simp add: make_n_channel_input_conv2d_same_def deref_def alloc_def new_weight_def
      timm_Conv2dSame_def new_conv_args_def no_kwargs_def kwargs_get_def rgb_conv_def
      slice_dim1_def py_slice_to_def Let_def eval_nat_numeral)

text \<open>
  C5. For each of the variants B0 to B7, once the activation is resolved and the model
  library has built the backbone: with \<^verbatim>\<open>no_stride=True\<close>, and the two coordinates
  present in the backbone, construction succeeds and the stride table is
  \<open>[2, 4, 8, 8, 8]\<close>; without the flag, or with \<^verbatim>\<open>no_stride=False\<close>, construction
  succeeds and the table is \<open>[2, 4, 8, 16, 32]\<close>.
\<close>

theorem no_stride_stride_table:
  assumes "(init, call, chans) \<in> set efficientnet_variants"
    and "resolve_act_layer gab (act_layer args) = Inr act"
    and "provider (call (pretrained args) act) h = Inr (b, hb)"
  shows "(no_stride args = Some True \<longrightarrow> conv_dw_at b 5 = Inr ra \<longrightarrow> conv_dw_at b 3 = Inr rb \<longrightarrow>
            (\<exists>enc h1. init provider gab h args = Inr (enc, h1) \<and> strides enc = [2, 4, 8, 8, 8]))
       \<and> (no_stride args \<noteq> Some True \<longrightarrow>
            (\<exists>enc. init provider gab h args = Inr (enc, hb) \<and> strides enc = [2, 4, 8, 16, 32]))"
proof (intro conjI impI)
  assume flag: "no_stride args = Some True"
    and at: "conv_dw_at b 5 = Inr ra" "conv_dw_at b 3 = Inr rb"
  show "\<exists>enc h1. init provider gab h args = Inr (enc, h1) \<and> strides enc = [2, 4, 8, 8, 8]"
    using efficientnet_init_flag [of gab args act provider call h b hb chans] assms(2,3) flag
    by (simp add: variants_unfold [OF assms(1)] no_stride_rewrite_heap [OF at])
next
  assume "no_stride args \<noteq> Some True"
  then show "\<exists>enc. init provider gab h args = Inr (enc, hb) \<and> strides enc = [2, 4, 8, 16, 32]"
    using efficientnet_init_plain [of gab args act provider call h b hb chans] assms(2,3)
    by (simp add: variants_unfold [OF assms(1)])
qed

text \<open>
  An instance of C5: B3 with the flag set, cleared and absent.
\<close>

theorem no_stride_stride_table_witness:
  "(B3Encoder_init, B3Encoder_call, [24, 32, 48, 136, 384]) \<in> set efficientnet_variants
   \<and> example_provider (B3Encoder_call False ''swish'') [] = Inr (example_backbone 0, example_modules)
   \<and> conv_dw_at (example_backbone 0) 5 = Inr 6
   \<and> conv_dw_at (example_backbone 0) 3 = Inr 4
   \<and> map_sum id (\<lambda>(enc, h1). strides enc)
        (B3Encoder_init example_provider Inr [] (example_args (Some True))) = Inr [2, 4, 8, 8, 8]
   \<and> map_sum id (\<lambda>(enc, h1). strides enc)
        (B3Encoder_init example_provider Inr [] (example_args (Some False))) = Inr [2, 4, 8, 16, 32]
   \<and> map_sum id (\<lambda>(enc, h1). strides enc)
        (B3Encoder_init example_provider Inr [] (example_args None)) = Inr [2, 4, 8, 16, 32]"
proof -
  have v: "(B3Encoder_init, B3Encoder_call, [24, 32, 48, 136, 384]) \<in> set efficientnet_variants"
    by (simp add: efficientnet_variants_def)
  have r: "resolve_act_layer Inr (act_layer (example_args flag)) = Inr ''swish''" for flag
    by (simp add: resolve_act_layer_def example_args_def)
  have p: "example_provider (B3Encoder_call (pretrained (example_args flag)) ''swish'') []
             = Inr (example_backbone 0, example_modules)" for flag
    by (simp add: example_provider_def)
  show ?thesis
    using no_stride_stride_table [where provider = example_provider and gab = Inr, OF v r p,
        of "Some True" 6 4]
      no_stride_stride_table [where provider = example_provider and gab = Inr, OF v r p,
        of "Some False" 6 4]
      no_stride_stride_table [where provider = example_provider and gab = Inr, OF v r p,
        of None 6 4]
      v p [of None] example_structure
    by (auto simp: example_args_def)
qed

text \<open>
  C6. For each of the variants B0 to B7 constructed with \<^verbatim>\<open>no_stride=True\<close>, where
  \<^verbatim>\<open>blocks[5][0].conv_dw\<close> and \<^verbatim>\<open>blocks[3][0].conv_dw\<close> are convolutions of the
  heap: the encoder holds the backbone as built, the heap keeps its size, the two
  convolutions get stride (1, 1) and dilation (2, 2) with every other attribute unchanged,
  and every other convolution of the heap is unchanged.
\<close>

theorem no_stride_touches_two_convs:
  assumes "(init, call, chans) \<in> set efficientnet_variants"
    and "resolve_act_layer gab (act_layer args) = Inr act"
    and "provider (call (pretrained args) act) h = Inr (b, hb)"
    and "conv_dw_at b 5 = Inr ra" and "conv_dw_at b 3 = Inr rb"
    and "ra < length hb" and "rb < length hb"
    and "no_stride args = Some True"
  shows "\<exists>enc h1. init provider gab h args = Inr (enc, h1)
           \<and> encoder enc = b
           \<and> length h1 = length hb
           \<and> h1 ! ra = (hb ! ra)\<lparr>stride := (1, 1), dilation := (2, 2)\<rparr>
           \<and> h1 ! rb = (hb ! rb)\<lparr>stride := (1, 1), dilation := (2, 2)\<rparr>
           \<and> (\<forall>r < length hb. r \<noteq> ra \<and> r \<noteq> rb \<longrightarrow> h1 ! r = hb ! r)"
proof -
  let ?h1 = "set_dilation (set_stride (set_dilation (set_stride hb ra (1, 1)) ra (2, 2)) rb (1, 1)) rb (2, 2)"
  have run: "init provider gab h args
      = Inr (\<lparr>channels = chans, strides = [2, 4, 8, 8, 8], layers' = layers args, encoder = b\<rparr>, ?h1)"
    using efficientnet_init_flag [of gab args act provider call h b hb chans]
      assms(2,3,8)
    by (simp add: variants_unfold [OF assms(1)] no_stride_rewrite_heap [OF assms(4,5)])
  have "length ?h1 = length hb" by (rule rewritten_heap_length)
  moreover have "?h1 ! ra = (hb ! ra)\<lparr>stride := (1, 1), dilation := (2, 2)\<rparr>"
    using assms(6) by (simp add: rewritten_heap_nth)
  moreover have "?h1 ! rb = (hb ! rb)\<lparr>stride := (1, 1), dilation := (2, 2)\<rparr>"
    using assms(7) by (simp add: rewritten_heap_nth)
  moreover have "\<forall>r < length hb. r \<noteq> ra \<and> r \<noteq> rb \<longrightarrow> ?h1 ! r = hb ! r"
    by (simp add: rewritten_heap_nth)
  ultimately show ?thesis using run by simp
qed

text \<open>
  An instance of C6: B0 on the example backbone; the modules 6 and 4 change.
\<close>

theorem no_stride_touches_two_convs_witness:
  "(B0Encoder_init, B0Encoder_call, [16, 24, 40, 112, 320]) \<in> set efficientnet_variants
   \<and> example_provider (B0Encoder_call False ''swish'') [] = Inr (example_backbone 0, example_modules)
   \<and> conv_dw_at (example_backbone 0) 5 = Inr 6
   \<and> conv_dw_at (example_backbone 0) 3 = Inr 4
   \<and> map stride example_modules
        = [(2, 2), (2, 2), (2, 2), (2, 2), (2, 2), (2, 2), (2, 2), (2, 2)]
   \<and> map dilation example_modules
        = [(1, 1), (1, 1), (1, 1), (1, 1), (1, 1), (1, 1), (1, 1), (1, 1)]
   \<and> map_sum id (\<lambda>(enc, h1). (encoder enc, map stride h1, map dilation h1))
        (B0Encoder_init example_provider Inr [] (example_args (Some True)))
      = Inr (example_backbone 0,
             [(2, 2), (2, 2), (2, 2), (2, 2), (1, 1), (2, 2), (1, 1), (2, 2)],
             [(1, 1), (1, 1), (1, 1), (1, 1), (2, 2), (1, 1), (2, 2), (1, 1)])"
proof -
  have v: "(B0Encoder_init, B0Encoder_call, [16, 24, 40, 112, 320]) \<in> set efficientnet_variants"
    by (simp add: efficientnet_variants_def)
  have r: "resolve_act_layer Inr (act_layer (example_args (Some True))) = Inr ''swish''"
    by (simp add: resolve_act_layer_def example_args_def)
  have p: "example_provider (B0Encoder_call (pretrained (example_args (Some True))) ''swish'') []
             = Inr (example_backbone 0, example_modules)"
    by (simp add: example_provider_def)
  have l: "6 < length example_modules" "4 < length example_modules"
    by (simp_all add: example_modules_def)
  have f: "no_stride (example_args (Some True)) = Some True"
    by (simp add: example_args_def)
  have run: "B0Encoder_init example_provider Inr [] (example_args (Some True))
      = Inr (\<lparr>channels = [16, 24, 40, 112, 320], strides = [2, 4, 8, 8, 8], layers' = [1, 2, 3, 4],
               encoder = example_backbone 0\<rparr>,
             example_modules[6 := dw_conv\<lparr>stride := (1, 1), dilation := (2, 2)\<rparr>,
                             4 := dw_conv\<lparr>stride := (1, 1), dilation := (2, 2)\<rparr>])"
    using r p example_structure
    by (simp add: B0Encoder_init_def efficientnet_init_def kwargs_get_def no_stride_rewrite_def
        assign_stride_def assign_dilation_def set_stride_def set_dilation_def set_encoder_def
        EncoderModule_init_def example_args_def example_modules_def)
  from no_stride_touches_two_convs
         [where provider = example_provider and gab = Inr, OF v r p example_structure l f]
  have "\<exists>enc h1. B0Encoder_init example_provider Inr [] (example_args (Some True)) = Inr (enc, h1)
           \<and> encoder enc = example_backbone 0 \<and> length h1 = length example_modules"
    by blast
  with run v p example_structure show ?thesis
    by (simp add: example_modules_def example_args_def rgb_conv_def dw_conv_def)
qed

text \<open>
  C7. When the backbone returns five outputs and the requested stages lie in 1..4,
  \<^verbatim>\<open>forward\<close> returns the outputs at the requested positions in the order of the
  request; for the request \<open>[4, 2]\<close> these are exactly two, the fourth output and then the
  second. Positions are 1-indexed, as the spec's \<^verbatim>\<open>_take\<close>.
\<close>

theorem forward_selects_in_request_order:
  assumes "length (run h (encoder self) x) = 5"
    and "list_all (\<lambda>i. 1 \<le> i \<and> i \<le> 4) (layers' self)"
  shows "forward run h self x
           = Inr (map (\<lambda>i. run h (encoder self) x ! nat (i - 1)) (layers' self))
         \<and> (layers' self = [4, 2] \<longrightarrow>
              forward run h self x = Inr [run h (encoder self) x ! 3, run h (encoder self) x ! 1])"
proof -
  have "list_all (\<lambda>i. 1 \<le> i \<and> i \<le> 4 \<and> nat i \<le> length (run h (encoder self) x)) (layers' self)"
    using assms by (auto simp: list_all_iff)
  then have "forward run h self x
           = Inr (map (\<lambda>i. run h (encoder self) x ! nat (i - 1)) (layers' self))"
    by (simp add: forward_def Let_def take'_in_range)
  then show ?thesis by (auto simp: numeral_3_eq_3)
qed

text \<open>
  An instance of C7: the request \<open>[4, 2]\<close> yields the outputs of stride 16 and 4, in
  that order.
\<close>

theorem forward_selects_in_request_order_witness:
  "length (example_run [] (encoder example_encoder) ''x'') = 5
   \<and> layers' example_encoder = [4, 2]
   \<and> forward example_run [] example_encoder ''x'' = Inr [''x/16'', ''x/4'']"
proof -
  have 1: "length (example_run [] (encoder example_encoder) ''x'') = 5"
    by (simp add: example_run_def)
  have 2: "list_all (\<lambda>i. 1 \<le> i \<and> i \<le> 4) (layers' example_encoder)"
    by (simp add: example_encoder_def)
  show ?thesis
    using forward_selects_in_request_order [where run = example_run, OF 1 2] 1
    by (simp add: example_encoder_def example_run_def)
qed

text \<open>
  C8, as amended. The drop-path rates passed to the factories are, for B0 to B7,
  0.05, 0.05, 0.1, 0.1, 0.2, 0.2, 0.2, 0.2, and 0.2 for MixNetXL.
\<close>

theorem drop_path_rates:
  "map fst efficientnet_variants
     = [B0Encoder_init, B1Encoder_init, B2Encoder_init, B3Encoder_init,
        B4Encoder_init, B5Encoder_init, B6Encoder_init, B7Encoder_init]
   \<and> map (\<lambda>(init, call, chans). pc_drop_path_rate (call p act)) efficientnet_variants
     = [5 / 100, 5 / 100, 1 / 10, 1 / 10, 2 / 10, 2 / 10, 2 / 10, 2 / 10]
   \<and> pc_drop_path_rate (MixNetXLEncoder_call p act) = 2 / 10"
  by (simp add: efficientnet_variants_def B0Encoder_call_def B1Encoder_call_def
      B2Encoder_call_def B3Encoder_call_def B4Encoder_call_def B5Encoder_call_def
      B6Encoder_call_def B7Encoder_call_def MixNetXLEncoder_call_def)

text \<open>
  C8 as stated fails at B1, which passes 0.05 and not 0.1, and at B3, which passes 0.1
  and not 0.2.
\<close>

theorem drop_path_rates_counterexample:
  "pc_drop_path_rate (B1Encoder_call True ''swish'') = 5 / 100
   \<and> pc_drop_path_rate (B1Encoder_call True ''swish'') \<noteq> 1 / 10
   \<and> pc_drop_path_rate (B3Encoder_call True ''swish'') = 1 / 10
   \<and> pc_drop_path_rate (B3Encoder_call True ''swish'') \<noteq> 2 / 10"
  by (simp add: B1Encoder_call_def B3Encoder_call_def)

text \<open>
  C9, as amended. Each of the variants B0 to B7 takes the flag: once the activation is
  resolved and the backbone built, the constructor with \<^verbatim>\<open>no_stride=True\<close> returns what
  the rewrite makes of the fresh backbone and of the default stride table (or the
  rewrite's error), and otherwise the backbone as built with the default table.
  MixNetXL has no such parameter: passing it is a \<open>TypeError\<close>, and without it the
  encoder has the default table and the backbone as built.
\<close>

theorem no_stride_flag_by_variant:
  "((init, call, chans) \<in> set efficientnet_variants \<longrightarrow>
      resolve_act_layer gab (act_layer args) = Inr act \<longrightarrow>
      provider (call (pretrained args) act) h = Inr (b, hb) \<longrightarrow>
      init provider gab h args
        = (if no_stride args = Some True
           then (case no_stride_rewrite hb b [2, 4, 8, 16, 32] of
                   Inl e \<Rightarrow> Inl e
                 | Inr (h1, strs) \<Rightarrow>
                     Inr (\<lparr>channels = chans, strides = strs, layers' = layers args, encoder = b\<rparr>, h1))
           else Inr (\<lparr>channels = chans, strides = [2, 4, 8, 16, 32], layers' = layers args,
                      encoder = b\<rparr>, hb)))
   \<and> (no_stride args \<noteq> None \<longrightarrow> MixNetXLEncoder_init provider gab h args = Inl TypeError)
   \<and> (no_stride args = None \<longrightarrow>
        resolve_act_layer gab (act_layer args) = Inr act \<longrightarrow>
        provider (MixNetXLEncoder_call (pretrained args) act) h = Inr (b, hb) \<longrightarrow>
        MixNetXLEncoder_init provider gab h args
          = Inr (\<lparr>channels = [40, 48, 64, 192, 320], strides = [2, 4, 8, 16, 32],
                  layers' = layers args, encoder = b\<rparr>, hb))"
proof (intro conjI impI)
  assume v: "(init, call, chans) \<in> set efficientnet_variants"
    and r: "resolve_act_layer gab (act_layer args) = Inr act"
    and p: "provider (call (pretrained args) act) h = Inr (b, hb)"
  show "init provider gab h args
        = (if no_stride args = Some True
           then (case no_stride_rewrite hb b [2, 4, 8, 16, 32] of
                   Inl e \<Rightarrow> Inl e
                 | Inr (h1, strs) \<Rightarrow>
                     Inr (\<lparr>channels = chans, strides = strs, layers' = layers args, encoder = b\<rparr>, h1))
           else Inr (\<lparr>channels = chans, strides = [2, 4, 8, 16, 32], layers' = layers args,
                      encoder = b\<rparr>, hb))"
  proof (cases "no_stride args = Some True")
    case True
    then show ?thesis
      using efficientnet_init_flag [of gab args act provider call h b hb chans] r p
      by (simp add: variants_unfold [OF v])
  next
    case False
    then show ?thesis
      using efficientnet_init_plain [of gab args act provider call h b hb chans] r p
      by (simp add: variants_unfold [OF v])
  qed
next
  assume "no_stride args \<noteq> None"
  then show "MixNetXLEncoder_init provider gab h args = Inl TypeError"
    by (auto simp: MixNetXLEncoder_init_def)
next
  assume "no_stride args = None"
    and "resolve_act_layer gab (act_layer args) = Inr act"
    and "provider (MixNetXLEncoder_call (pretrained args) act) h = Inr (b, hb)"
  then show "MixNetXLEncoder_init provider gab h args
          = Inr (\<lparr>channels = [40, 48, 64, 192, 320], strides = [2, 4, 8, 16, 32],
                  layers' = layers args, encoder = b\<rparr>, hb)"
    by (simp add: MixNetXLEncoder_init_def set_encoder_def EncoderModule_init_def)
qed

text \<open>
  Instances of C9: B7 with the flag, and MixNetXL with and without it.
\<close>

theorem no_stride_flag_by_variant_witness:
  "(B7Encoder_init, B7Encoder_call, [32, 48, 80, 224, 640]) \<in> set efficientnet_variants
   \<and> example_provider (B7Encoder_call False ''swish'') [] = Inr (example_backbone 0, example_modules)
   \<and> map_sum id (\<lambda>(enc, h1). (strides enc, map stride h1))
        (B7Encoder_init example_provider Inr [] (example_args (Some True)))
      = Inr ([2, 4, 8, 8, 8], [(2, 2), (2, 2), (2, 2), (2, 2), (1, 1), (2, 2), (1, 1), (2, 2)])
   \<and> MixNetXLEncoder_init example_provider Inr [] (example_args (Some False)) = Inl TypeError
   \<and> MixNetXLEncoder_init example_provider Inr [] (example_args None)
      = Inr (\<lparr>channels = [40, 48, 64, 192, 320], strides = [2, 4, 8, 16, 32],
               layers' = [1, 2, 3, 4], encoder = example_backbone 0\<rparr>, example_modules)"
proof -
  have v: "(B7Encoder_init, B7Encoder_call, [32, 48, 80, 224, 640]) \<in> set efficientnet_variants"
    by (simp add: efficientnet_variants_def)
  have r: "resolve_act_layer Inr (act_layer (example_args flag)) = Inr ''swish''" for flag
    by (simp add: resolve_act_layer_def example_args_def)
  have p: "example_provider (call (pretrained (example_args flag)) ''swish'') []
             = Inr (example_backbone 0, example_modules)" for flag call
    by (simp add: example_provider_def)
  have rw: "no_stride_rewrite example_modules (example_backbone 0) [2, 4, 8, 16, 32]
      = Inr (example_modules[6 := dw_conv\<lparr>stride := (1, 1), dilation := (2, 2)\<rparr>,
                             4 := dw_conv\<lparr>stride := (1, 1), dilation := (2, 2)\<rparr>], [2, 4, 8, 8, 8])"
    using example_structure
    by (simp add: no_stride_rewrite_def assign_stride_def assign_dilation_def set_stride_def
        set_dilation_def example_modules_def)
  note T = no_stride_flag_by_variant [where gab = Inr and provider = example_provider
      and h = "[]" and act = "''swish''" and b = "example_backbone 0" and hb = example_modules]
  have a: "B7Encoder_init example_provider Inr [] (example_args (Some True))
      = Inr (\<lparr>channels = [32, 48, 80, 224, 640], strides = [2, 4, 8, 8, 8],
               layers' = [1, 2, 3, 4], encoder = example_backbone 0\<rparr>,
             example_modules[6 := dw_conv\<lparr>stride := (1, 1), dilation := (2, 2)\<rparr>,
                             4 := dw_conv\<lparr>stride := (1, 1), dilation := (2, 2)\<rparr>])"
    using T [where args = "example_args (Some True)" and init = B7Encoder_init
        and call = B7Encoder_call and chans = "[32, 48, 80, 224, 640]",
        THEN conjunct1, rule_format, OF v r p [of B7Encoder_call "Some True"]] rw
    by (simp add: example_args_def)
  have m1: "MixNetXLEncoder_init example_provider Inr [] (example_args (Some False)) = Inl TypeError"
    using T [where args = "example_args (Some False)", THEN conjunct2, THEN conjunct1]
    by (simp add: example_args_def)
  have m2: "MixNetXLEncoder_init example_provider Inr [] (example_args None)
      = Inr (\<lparr>channels = [40, 48, 64, 192, 320], strides = [2, 4, 8, 16, 32],
               layers' = [1, 2, 3, 4], encoder = example_backbone 0\<rparr>, example_modules)"
    using T [where args = "example_args None", THEN conjunct2, THEN conjunct2, rule_format, OF _ r p [of MixNetXLEncoder_call None]]
    by (simp add: example_args_def)
  have s: "map stride (example_modules[6 := dw_conv\<lparr>stride := (1, 1), dilation := (2, 2)\<rparr>,
                             4 := dw_conv\<lparr>stride := (1, 1), dilation := (2, 2)\<rparr>])
      = [(2, 2), (2, 2), (2, 2), (2, 2), (1, 1), (2, 2), (1, 1), (2, 2)]"
    by (simp add: example_modules_def rgb_conv_def dw_conv_def)
  have pp: "example_provider (B7Encoder_call False ''swish'') []
      = Inr (example_backbone 0, example_modules)"
    by (simp add: example_provider_def)
  show ?thesis
    using v pp m1 m2 s by (simp add: a)
qed

text \<open>
  C9 as stated fails for MixNetXL: constructing it with the flag raises.
\<close>

theorem no_stride_flag_counterexample:
  "MixNetXLEncoder_init example_provider Inr [] (example_args (Some True)) = Inl TypeError"
  by (simp add: MixNetXLEncoder_init_def example_args_def)

text \<open>
  C10. The adapter and \<^verbatim>\<open>change_input_channels\<close> return the same result for any
  two values of \<open>mode\<close>, of any types.
\<close>

theorem mode_is_never_read:
  "make_n_channel_input_conv2d_same Conv2dSame h conv n mode1 kw
     = make_n_channel_input_conv2d_same Conv2dSame h conv n mode2 kw
   \<and> change_input_channels Conv2dSame h self n mode1 kw
       = change_input_channels Conv2dSame h self n mode2 kw"
  by (simp add: make_n_channel_input_conv2d_same_def change_input_channels_def)

end
